theory Spec2Isabelle
  imports Complex_Main "HOL-Library.Multiset" "HOL-Library.Sublist"
begin

section \<open>Strings\<close>

text \<open>
  A Go string is a sequence of bytes; \<open>len\<close> counts bytes. It is modelled as
  \<^typ>\<open>string\<close> (a list of 8-bit characters), so \<^const>\<open>length\<close> is Go's \<open>len\<close>.
\<close>

definition is_digit :: "char \<Rightarrow> bool" where
  "is_digit c = (c \<in> set ''0123456789'')"

definition is_upper :: "char \<Rightarrow> bool" where
  "is_upper c = (c \<in> set ''ABCDEFGHIJKLMNOPQRSTUVWXYZ'')"

definition is_lower :: "char \<Rightarrow> bool" where
  "is_lower c = (c \<in> set ''abcdefghijklmnopqrstuvwxyz'')"

text \<open>The value of a decimal digit (0 for any other byte).\<close>

definition digit_val :: "char \<Rightarrow> nat" where
  "digit_val c = (if is_digit c then of_char c - 48 else 0)"

text \<open>Lower-casing of one ASCII letter; every other byte is kept.\<close>

definition lower_byte :: "char \<Rightarrow> char" where
  "lower_byte c = (if is_upper c then char_of (of_char c + (32::nat)) else c)"

text \<open>
  \<open>strings.ToLower\<close>. On ASCII input it lowers the letters A to Z. On other input Go
  maps every rune through \<open>unicode.ToLower\<close>; the only runes outside ASCII that are
  mapped to an ASCII letter are U+0130 (to i) and U+212A (to k), and every other rune
  outside ASCII, as well as an invalid byte, becomes bytes above 0x7F. The classifier only
  asks whether the result contains \<open>subtotal\<close>, \<open>tax\<close> or \<open>total\<close>, none of which has an
  i or a k, so for these tests the byte-wise lowering below gives the same answers.
\<close>

definition ToLower :: "string \<Rightarrow> string" where
  "ToLower s = map lower_byte s"

text \<open>\<open>strings.Contains(s, sub)\<close>: \<open>sub\<close> occurs in \<open>s\<close> as a contiguous run.\<close>

fun Contains :: "string \<Rightarrow> string \<Rightarrow> bool" where
  "Contains [] sub = (sub = [])"
| "Contains (c # cs) sub = (prefix sub (c # cs) \<or> Contains cs sub)"

text \<open>\<open>strings.TrimPrefix\<close>, and \<open>strings.ReplaceAll\<close> with a one-byte pattern and an empty replacement.\<close>

definition TrimPrefix :: "string \<Rightarrow> string \<Rightarrow> string" where
  "TrimPrefix s p = (if prefix p s then drop (length p) s else s)"

definition remove_char :: "char \<Rightarrow> string \<Rightarrow> string" where
  "remove_char c s = filter (\<lambda>d. d \<noteq> c) s"

subsection \<open>\<open>strings.TrimSpace\<close>\<close>

text \<open>
  \<open>strings.TrimSpace\<close> removes the leading and the trailing white space runes, as
  \<open>unicode.IsSpace\<close> defines them, reading the string as UTF-8. The list holds the UTF-8
  encodings of these runes: tab, line feed, vertical tab, form feed, carriage return,
  space, U+0085, U+00A0, U+1680, U+2000 to U+200A, U+2028, U+2029, U+202F, U+205F and
  U+3000. A byte that does not start one of these encodings stops the trimming.
\<close>

definition space_runes :: "string list" where
  "space_runes =
    [[CHR 0x09], [CHR 0x0A], [CHR 0x0B], [CHR 0x0C], [CHR 0x0D], [CHR 0x20],
     [CHR 0xC2, CHR 0x85], [CHR 0xC2, CHR 0xA0],
     [CHR 0xE1, CHR 0x9A, CHR 0x80],
     [CHR 0xE2, CHR 0x80, CHR 0x80], [CHR 0xE2, CHR 0x80, CHR 0x81],
     [CHR 0xE2, CHR 0x80, CHR 0x82], [CHR 0xE2, CHR 0x80, CHR 0x83],
     [CHR 0xE2, CHR 0x80, CHR 0x84], [CHR 0xE2, CHR 0x80, CHR 0x85],
     [CHR 0xE2, CHR 0x80, CHR 0x86], [CHR 0xE2, CHR 0x80, CHR 0x87],
     [CHR 0xE2, CHR 0x80, CHR 0x88], [CHR 0xE2, CHR 0x80, CHR 0x89],
     [CHR 0xE2, CHR 0x80, CHR 0x8A],
     [CHR 0xE2, CHR 0x80, CHR 0xA8], [CHR 0xE2, CHR 0x80, CHR 0xA9],
     [CHR 0xE2, CHR 0x80, CHR 0xAF],
     [CHR 0xE2, CHR 0x81, CHR 0x9F],
     [CHR 0xE3, CHR 0x80, CHR 0x80]]"

text \<open>The number of bytes of the rune of \<open>runes\<close> that \<open>s\<close> starts with; 0 if there is none.\<close>

definition rune_width :: "string list \<Rightarrow> string \<Rightarrow> nat" where
  "rune_width runes s = (case filter (\<lambda>r. prefix r s) runes of [] \<Rightarrow> 0 | r # _ \<Rightarrow> length r)"

text \<open>
  Dropping the leading runes of a set. The counter is the number of bytes of the current
  rune still to be dropped.
\<close>

fun drop_runes :: "string list \<Rightarrow> nat \<Rightarrow> string \<Rightarrow> string" where
  "drop_runes runes n [] = []"
| "drop_runes runes (Suc n) (c # cs) = drop_runes runes n cs"
| "drop_runes runes 0 (c # cs) =
     (case rune_width runes (c # cs) of
        0 \<Rightarrow> c # cs
      | Suc k \<Rightarrow> drop_runes runes k cs)"

definition TrimSpace :: "string \<Rightarrow> string" where
  "TrimSpace s = rev (drop_runes (map rev space_runes) 0 (rev (drop_runes space_runes 0 s)))"

section \<open>Regular expressions\<close>

text \<open>
  Every pattern of the program is a sequence of character classes, each with a greedy
  repetition count (\<open>?\<close>, \<open>+\<close>, \<open>*\<close>, \<open>{n}\<close>, \<open>{n,m}\<close>), or an alternation of such
  sequences. \<open>Rep cls lo hi\<close> is the class \<open>cls\<close> repeated at least \<open>lo\<close> and at most \<open>hi\<close>
  times (\<open>None\<close>: no upper bound). All classes of the program hold ASCII characters only,
  so matching bytes is matching runes.
\<close>

datatype rep = Rep "char \<Rightarrow> bool" nat "nat option"

type_synonym regex = "rep list list"

text \<open>The longest run of the class at the head of \<open>s\<close>, cut at the upper bound.\<close>

definition run :: "(char \<Rightarrow> bool) \<Rightarrow> nat option \<Rightarrow> string \<Rightarrow> nat" where
  "run cls hi s =
     (let n = length (takeWhile cls s) in case hi of None \<Rightarrow> n | Some h \<Rightarrow> min h n)"

text \<open>
  Go's \<open>regexp\<close> returns the match a backtracking search finds first. A greedy repetition
  first takes \<open>n\<close> characters, the most it can, and gives them back one at a time, down to
  \<open>lo\<close>, until the rest of the sequence (\<open>k\<close>) matches what follows. The result is the text
  each repetition of the sequence matched.
\<close>

fun backoff :: "(string \<Rightarrow> string list option) \<Rightarrow> string \<Rightarrow> nat \<Rightarrow> nat \<Rightarrow> string list option" where
  "backoff k s lo 0 =
     (if 0 < lo then None
      else case k s of Some ps \<Rightarrow> Some ([] # ps) | None \<Rightarrow> None)"
| "backoff k s lo (Suc n) =
     (if Suc n < lo then None
      else case k (drop (Suc n) s) of
             Some ps \<Rightarrow> Some (take (Suc n) s # ps)
           | None \<Rightarrow> backoff k s lo n)"

primrec match_seq :: "rep list \<Rightarrow> string \<Rightarrow> string list option" where
  "match_seq [] = (\<lambda>s. Some [])"
| "match_seq (r # rs) =
     (\<lambda>s. case r of Rep cls lo hi \<Rightarrow> backoff (match_seq rs) s lo (run cls hi s))"

text \<open>A match of the regex at the head of \<open>s\<close>: the first alternative that matches.\<close>

fun match_here :: "regex \<Rightarrow> string \<Rightarrow> string list option" where
  "match_here [] s = None"
| "match_here (alt # alts) s =
     (case match_seq alt s of Some ps \<Rightarrow> Some ps | None \<Rightarrow> match_here alts s)"

text \<open>
  The leftmost match: the text before it, the pieces matched, and the text after it.
\<close>

fun find_match :: "regex \<Rightarrow> string \<Rightarrow> (string \<times> string list \<times> string) option" where
  "find_match re [] =
     (case match_here re [] of Some ps \<Rightarrow> Some ([], ps, []) | None \<Rightarrow> None)"
| "find_match re (c # cs) =
     (case match_here re (c # cs) of
        Some ps \<Rightarrow> Some ([], ps, drop (length (concat ps)) (c # cs))
      | None \<Rightarrow>
          (case find_match re cs of
             Some (pre, ps, post) \<Rightarrow> Some (c # pre, ps, post)
           | None \<Rightarrow> None))"

text \<open>\<open>MatchString\<close>: the regex matches somewhere in \<open>s\<close>.\<close>

definition MatchString :: "regex \<Rightarrow> string \<Rightarrow> bool" where
  "MatchString re s = (find_match re s \<noteq> None)"

text \<open>\<open>FindString\<close>: the text of the leftmost match, the empty string if there is none.\<close>

definition FindString :: "regex \<Rightarrow> string \<Rightarrow> string" where
  "FindString re s = (case find_match re s of Some (pre, ps, post) \<Rightarrow> concat ps | None \<Rightarrow> [])"

text \<open>
  \<open>ReplaceAllString(s, "")\<close>: every match, found from left to right, each search starting
  where the last match ended, is removed. The counter is the number of characters of the
  current match still to be removed. An empty match removes nothing, and the search goes
  on one character further.
\<close>

fun remove_matches :: "regex \<Rightarrow> nat \<Rightarrow> string \<Rightarrow> string" where
  "remove_matches re n [] = []"
| "remove_matches re (Suc n) (c # cs) = remove_matches re n cs"
| "remove_matches re 0 (c # cs) =
     (case match_here re (c # cs) of
        None \<Rightarrow> c # remove_matches re 0 cs
      | Some ps \<Rightarrow>
          (case length (concat ps) of
             0 \<Rightarrow> c # remove_matches re 0 cs
           | Suc n \<Rightarrow> remove_matches re n cs))"

section \<open>Numbers\<close>

subsection \<open>\<open>float64\<close>\<close>

text \<open>
  A \<open>float64\<close> is a finite number, an infinity or NaN. \<open>Finite r\<close> stands for the
  \<open>float64\<close> nearest to the rational \<open>r\<close>: the program never calculates with an amount,
  it parses it, compares it with zero and stores it, so the rounding of the parsed
  decimal is left implicit. Two things the rounding decides are kept: a magnitude that
  rounds beyond the largest \<open>float64\<close> is a range error of the parser, and one that rounds
  to zero is zero (see \<open>ParseFloat\<close>). The sign of a zero is not kept.
\<close>

datatype float64 = Finite rat | PInf | NInf | NaN

text \<open>Go's \<open><\<close> and \<open><=\<close> on \<open>float64\<close>: every comparison with NaN is false.\<close>

fun f64_less :: "float64 \<Rightarrow> float64 \<Rightarrow> bool" where
  "f64_less NaN y = False"
| "f64_less x NaN = False"
| "f64_less (Finite a) (Finite b) = (a < b)"
| "f64_less (Finite a) PInf = True"
| "f64_less (Finite a) NInf = False"
| "f64_less PInf y = False"
| "f64_less NInf NInf = False"
| "f64_less NInf y = True"

fun f64_le :: "float64 \<Rightarrow> float64 \<Rightarrow> bool" where
  "f64_le NaN y = False"
| "f64_le x NaN = False"
| "f64_le (Finite a) (Finite b) = (a \<le> b)"
| "f64_le (Finite a) PInf = True"
| "f64_le (Finite a) NInf = False"
| "f64_le PInf PInf = True"
| "f64_le PInf y = False"
| "f64_le NInf y = True"

subsection \<open>\<open>strconv.ParseFloat(s, 64)\<close>\<close>

text \<open>
  The strings \<open>ParseFloat\<close> reads as an infinity or as NaN: \<open>inf\<close> or \<open>infinity\<close> with an
  optional sign, and \<open>nan\<close> without one, in any mix of upper and lower case.
\<close>

definition special :: "string \<Rightarrow> float64 option" where
  "special s =
     (case s of
        [] \<Rightarrow> None
      | c # cs \<Rightarrow>
          if c = CHR ''+'' \<or> c = CHR ''-'' then
            (if ToLower cs = ''inf'' \<or> ToLower cs = ''infinity''
             then Some (if c = CHR ''-'' then NInf else PInf) else None)
          else if c = CHR ''i'' \<or> c = CHR ''I'' then
            (if ToLower s = ''inf'' \<or> ToLower s = ''infinity'' then Some PInf else None)
          else if c = CHR ''n'' \<or> c = CHR ''N'' then
            (if ToLower s = ''nan'' then Some NaN else None)
          else None)"

definition is_hex_letter :: "char \<Rightarrow> bool" where
  "is_hex_letter c = (c \<in> set ''abcdefABCDEF'')"

definition hex_val :: "char \<Rightarrow> nat" where
  "hex_val c =
     (if is_digit c then digit_val c
      else if c \<in> set ''abcdef'' then of_char c - 87
      else if c \<in> set ''ABCDEF'' then of_char c - 55
      else 0)"

text \<open>
  The mantissa loop of \<open>readFloat\<close>: underscores are skipped, the first point is noted,
  digits are accumulated. The result is the mantissa as a whole number, the number of
  its digits after the point, whether a digit was seen, and the text left.
\<close>

fun read_mantissa :: "bool \<Rightarrow> bool \<Rightarrow> nat \<Rightarrow> nat \<Rightarrow> bool \<Rightarrow> string \<Rightarrow> nat \<times> nat \<times> bool \<times> string" where
  "read_mantissa hex sawdot m f sawdigits [] = (m, f, sawdigits, [])"
| "read_mantissa hex sawdot m f sawdigits (c # cs) =
     (if c = CHR ''_'' then read_mantissa hex sawdot m f sawdigits cs
      else if c = CHR ''.'' then
        (if sawdot then (m, f, sawdigits, c # cs)
         else read_mantissa hex True m f sawdigits cs)
      else if is_digit c then
        read_mantissa hex sawdot (m * (if hex then 16 else 10) + digit_val c)
          (if sawdot then Suc f else f) True cs
      else if hex \<and> is_hex_letter c then
        read_mantissa hex sawdot (m * 16 + hex_val c) (if sawdot then Suc f else f) True cs
      else (m, f, sawdigits, c # cs))"

text \<open>
  The exponent loop of \<open>readFloat\<close>: once the exponent has reached 10000 further digits
  are read but no longer counted.
\<close>

fun read_exp_digits :: "nat \<Rightarrow> string \<Rightarrow> nat \<times> string" where
  "read_exp_digits e [] = (e, [])"
| "read_exp_digits e (c # cs) =
     (if c = CHR ''_'' then read_exp_digits e cs
      else if is_digit c then
        read_exp_digits (if e < 10000 then e * 10 + digit_val c else e) cs
      else (e, c # cs))"

text \<open>
  \<open>underscoreOK\<close>: an underscore stands between two digits, or between a base prefix and
  a digit. \<open>saw\<close> is the kind of the last character: \<open>^\<close> at the start, \<open>0\<close> for a digit
  or a base prefix, \<open>_\<close> for an underscore, \<open>!\<close> for anything else.
\<close>

fun underscore_scan :: "bool \<Rightarrow> char \<Rightarrow> string \<Rightarrow> bool" where
  "underscore_scan hex saw [] = (saw \<noteq> CHR ''_'')"
| "underscore_scan hex saw (c # cs) =
     (if is_digit c \<or> (hex \<and> is_hex_letter c) then underscore_scan hex (CHR ''0'') cs
      else if c = CHR ''_'' then
        (if saw \<noteq> CHR ''0'' then False else underscore_scan hex (CHR ''_'') cs)
      else if saw = CHR ''_'' then False
      else underscore_scan hex (CHR ''!'') cs)"

definition strip_sign :: "string \<Rightarrow> string" where
  "strip_sign s = (case s of [] \<Rightarrow> [] | c # cs \<Rightarrow> if c = CHR ''+'' \<or> c = CHR ''-'' then cs else s)"

definition underscoreOK :: "string \<Rightarrow> bool" where
  "underscoreOK s =
     (let t = strip_sign s in
      case t of
        a # b # rest \<Rightarrow>
          if a = CHR ''0'' \<and> lower_byte b \<in> set ''box''
          then underscore_scan (lower_byte b = CHR ''x'') (CHR ''0'') rest
          else underscore_scan False (CHR ''^'') t
      | _ \<Rightarrow> underscore_scan False (CHR ''^'') t)"

text \<open>
  What \<open>readFloat\<close> reads from a string it accepts as a whole: the sign, whether the
  number is hexadecimal, the mantissa, the number of its digits after the point, and the
  exponent. \<open>None\<close> is a syntax error: \<open>readFloat\<close> refuses the string, or reads only a
  part of it, which \<open>ParseFloat\<close> refuses.
\<close>

definition read_exponent :: "bool \<Rightarrow> string \<Rightarrow> (int \<times> string) option" where
  "read_exponent hex rest =
     (case rest of
        [] \<Rightarrow> (if hex then None else Some (0, rest))
      | c # r1 \<Rightarrow>
          if lower_byte c = (if hex then CHR ''p'' else CHR ''e'') then
            (case r1 of
               [] \<Rightarrow> None
             | d # r1' \<Rightarrow>
                 (let r2 = (if d = CHR ''+'' \<or> d = CHR ''-'' then r1' else r1) in
                  case r2 of
                    [] \<Rightarrow> None
                  | g # _ \<Rightarrow>
                      if \<not> is_digit g then None
                      else (case read_exp_digits 0 r2 of
                              (e, r3) \<Rightarrow> Some (if d = CHR ''-'' then - int e else int e, r3))))
          else if hex then None
          else Some (0, rest))"

definition readFloat :: "string \<Rightarrow> (bool \<times> bool \<times> nat \<times> nat \<times> int) option" where
  "readFloat s =
     (case s of
        [] \<Rightarrow> None
      | c # _ \<Rightarrow>
          (let s1 = strip_sign s;
               hex = (case s1 of a # b # _ # _ \<Rightarrow> a = CHR ''0'' \<and> lower_byte b = CHR ''x'' | _ \<Rightarrow> False);
               s2 = (if hex then drop 2 s1 else s1)
           in case read_mantissa hex False 0 0 False s2 of
                (m, f, sawdigits, rest) \<Rightarrow>
                  if \<not> sawdigits then None
                  else (case read_exponent hex rest of
                          None \<Rightarrow> None
                        | Some (e, r3) \<Rightarrow>
                            if r3 \<noteq> [] then None
                            else if CHR ''_'' \<in> set s \<and> \<not> underscoreOK s then None
                            else Some (c = CHR ''-'', hex, m, f, e))))"

definition pow_int :: "rat \<Rightarrow> int \<Rightarrow> rat" where
  "pow_int b n = (if 0 \<le> n then b ^ nat n else 1 / b ^ nat (- n))"

text \<open>
  \<open>ParseFloat\<close> rounds the number read to the nearest \<open>float64\<close>, ties to even. A
  magnitude of at least \<open>2^1024 - 2^970\<close>, half way from the largest \<open>float64\<close> to
  \<open>2^1024\<close>, is a range error; one of at most \<open>2^-1075\<close>, half of the smallest positive
  \<open>float64\<close>, is zero. \<open>None\<close> is a returned error.
\<close>

definition ParseFloat :: "string \<Rightarrow> float64 option" where
  "ParseFloat s =
     (case special s of
        Some v \<Rightarrow> Some v
      | None \<Rightarrow>
          (case readFloat s of
             None \<Rightarrow> None
           | Some (neg, hex, m, f, e) \<Rightarrow>
               (let mag = of_nat m * (if hex then pow_int 2 (e - 4 * int f)
                                       else pow_int 10 (e - int f))
                in if 2 ^ 1024 - 2 ^ 970 \<le> mag then None
                   else if mag \<le> 1 / 2 ^ 1075 then Some (Finite 0)
                   else Some (Finite (if neg then - mag else mag)))))"

subsection \<open>\<open>strconv.Atoi\<close>\<close>

definition dec_val :: "string \<Rightarrow> nat" where
  "dec_val ds = foldl (\<lambda>n c. n * 10 + digit_val c) 0 ds"

text \<open>
  \<open>Atoi\<close> reads an optional sign and one or more decimal digits; a value outside the
  range of \<open>int\<close> (64 bits) is an error. \<open>None\<close> is a returned error.
\<close>

definition Atoi :: "string \<Rightarrow> int option" where
  "Atoi s =
     (let ds = strip_sign s;
          v = (if take 1 s = ''-'' then - int (dec_val ds) else int (dec_val ds))
      in if ds = [] \<or> \<not> list_all is_digit ds then None
         else if v < - (2 ^ 63) \<or> 2 ^ 63 - 1 < v then None
         else Some v)"

section \<open>The normalisation helpers (package \<open>receipt\<close>)\<close>

text \<open>\<open>\d\<close>, \<open>\w\<close> and \<open>\s\<close> of Go's regular expressions: ASCII classes.\<close>

definition is_word :: "char \<Rightarrow> bool" where
  "is_word c = (is_digit c \<or> is_upper c \<or> is_lower c \<or> c = CHR ''_'')"

definition is_space :: "char \<Rightarrow> bool" where
  "is_space c = (c \<in> set [CHR 0x09, CHR 0x0A, CHR 0x0C, CHR 0x0D, CHR 0x20])"

text \<open>
  \<open>datePatterns\<close>, in the order of the source:
  \<^verbatim>\<open>\d{1,2}/\d{1,2}/\d{2,4}\<close>, \<^verbatim>\<open>\d{1,2}-\d{1,2}-\d{2,4}\<close>, \<^verbatim>\<open>\d{4}-\d{2}-\d{2}\<close>,
  \<^verbatim>\<open>\w{3}\s+\d{1,2},?\s+\d{4}\<close>, \<^verbatim>\<open>\d{1,2}\s+\w{3}\s+\d{4}\<close>.
\<close>

definition lit :: "char \<Rightarrow> rep" where
  "lit c = Rep (\<lambda>d. d = c) 1 (Some 1)"

definition datePatterns :: "regex list" where
  "datePatterns =
    [[[Rep is_digit 1 (Some 2), lit (CHR ''/''), Rep is_digit 1 (Some 2), lit (CHR ''/''),
       Rep is_digit 2 (Some 4)]],
     [[Rep is_digit 1 (Some 2), lit (CHR ''-''), Rep is_digit 1 (Some 2), lit (CHR ''-''),
       Rep is_digit 2 (Some 4)]],
     [[Rep is_digit 4 (Some 4), lit (CHR ''-''), Rep is_digit 2 (Some 2), lit (CHR ''-''),
       Rep is_digit 2 (Some 2)]],
     [[Rep is_word 3 (Some 3), Rep is_space 1 None, Rep is_digit 1 (Some 2),
       Rep (\<lambda>d. d = CHR '','') 0 (Some 1), Rep is_space 1 None, Rep is_digit 4 (Some 4)]],
     [[Rep is_digit 1 (Some 2), Rep is_space 1 None, Rep is_word 3 (Some 3),
       Rep is_space 1 None, Rep is_digit 4 (Some 4)]]]"

text \<open>
  \<open>NormalizePrice\<close>: the string is trimmed, one leading dollar sign and all commas are
  removed, and the rest is parsed; a parse error gives 0.0.
\<close>

definition NormalizePrice :: "string \<Rightarrow> float64" where
  "NormalizePrice s =
     (let cleaned = TrimSpace s;
          cleaned = TrimPrefix cleaned ''$'';
          cleaned = remove_char (CHR '','') cleaned
      in case ParseFloat cleaned of
           None \<Rightarrow> Finite 0
         | Some val \<Rightarrow> val)"

text \<open>
  \<open>ExtractDate\<close>: the leftmost match of the first pattern that matches at all; the
  empty string if none does.
\<close>

fun first_found :: "regex list \<Rightarrow> string \<Rightarrow> string" where
  "first_found [] text = []"
| "first_found (pattern # patterns) text =
     (let match = FindString pattern text
      in if match \<noteq> [] then match else first_found patterns text)"

definition ExtractDate :: "string \<Rightarrow> string" where
  "ExtractDate text = first_found datePatterns text"

text \<open>\<open>ParseQuantity\<close>: the trimmed string as an integer; 1 on an error or below 1.\<close>

definition ParseQuantity :: "string \<Rightarrow> int" where
  "ParseQuantity s =
     (let cleaned = TrimSpace s
      in case Atoi cleaned of
           None \<Rightarrow> 1
         | Some qty \<Rightarrow> if qty < 1 then 1 else qty)"

section \<open>The parser helpers (package \<open>server\<close>)\<close>

text \<open>\<open>priceRegex\<close> is \<^verbatim>\<open>\$?([\d,]+\.?\d*)\<close>: its group is the last three pieces.\<close>

definition priceRegex :: regex where
  "priceRegex =
    [[Rep (\<lambda>d. d = CHR ''$'') 0 (Some 1),
      Rep (\<lambda>d. is_digit d \<or> d = CHR '','') 1 None,
      Rep (\<lambda>d. d = CHR ''.'') 0 (Some 1),
      Rep is_digit 0 None]]"

text \<open>\<open>dateRegex\<close> is \<^verbatim>\<open>\d{1,2}/\d{1,2}/\d{2,4}|\d{4}-\d{2}-\d{2}\<close>.\<close>

definition dateRegex :: regex where
  "dateRegex =
    [[Rep is_digit 1 (Some 2), lit (CHR ''/''), Rep is_digit 1 (Some 2), lit (CHR ''/''),
      Rep is_digit 2 (Some 4)],
     [Rep is_digit 4 (Some 4), lit (CHR ''-''), Rep is_digit 2 (Some 2), lit (CHR ''-''),
      Rep is_digit 2 (Some 2)]]"

definition containsPrice :: "string \<Rightarrow> bool" where
  "containsPrice s = (Contains s ''$'' \<or> MatchString priceRegex s)"

definition containsDate :: "string \<Rightarrow> bool" where
  "containsDate s = MatchString dateRegex s"

text \<open>
  \<open>extractPrice\<close>: the group of the leftmost match of \<open>priceRegex\<close>, without its commas,
  parsed; 0 if there is no match or the parser returns an error.
\<close>

definition extractPrice :: "string \<Rightarrow> float64" where
  "extractPrice s =
     (case find_match priceRegex s of
        None \<Rightarrow> Finite 0
      | Some (pre, matches, post) \<Rightarrow>
          (let priceStr = remove_char (CHR '','') (concat (drop 1 matches))
           in case ParseFloat priceStr of
                None \<Rightarrow> Finite 0
              | Some price \<Rightarrow> price))"

text \<open>
  \<open>extractItemName\<close>: the text without the matches of \<open>priceRegex\<close> and without dollar
  signs, trimmed; the empty string if fewer than two bytes are left.
\<close>

definition extractItemName :: "string \<Rightarrow> string" where
  "extractItemName s =
     (let name = remove_matches priceRegex 0 s;
          name = remove_char (CHR ''$'') name;
          name = TrimSpace name
      in if length name < 2 then [] else name)"

section \<open>Fragments and their order (package \<open>tools\<close>)\<close>

text \<open>
  \<open>TextractLine\<close>. The three numbers are \<open>float64\<close> values decoded from a JSON document,
  which has no notation for an infinity or NaN: they are finite, and a finite \<open>float64\<close>
  is a rational number.
\<close>

record TextractLine =
  Text :: string
  Confidence :: rat
  Top :: rat
  Left :: rat

text \<open>The comparison \<open>HandleLoadTextract\<close> gives to \<open>sort.Slice\<close>.\<close>

definition line_less :: "TextractLine \<Rightarrow> TextractLine \<Rightarrow> bool" where
  "line_less a b = (if Top a \<noteq> Top b then Top a < Top b else Left a < Left b)"

text \<open>
  \<open>sort.Slice\<close> is the library's sort: it permutes the slice so that the comparison
  never puts a later element before an earlier one, and it does not promise to keep the
  order of elements that compare equal. It is modelled by the insertion sort the library
  runs on a slice of at most 12 elements: each element in turn moves towards the front
  while it is less than the element before it. \<open>sift\<close> holds the part already sorted in
  reverse, nearest element first.
\<close>

fun sift :: "TextractLine \<Rightarrow> TextractLine list \<Rightarrow> TextractLine list" where
  "sift x [] = [x]"
| "sift x (y # ys) = (if line_less x y then y # sift x ys else x # y # ys)"

fun insertion_loop :: "TextractLine list \<Rightarrow> TextractLine list \<Rightarrow> TextractLine list" where
  "insertion_loop front [] = rev front"
| "insertion_loop front (x # xs) = insertion_loop (sift x front) xs"

definition sort_lines :: "TextractLine list \<Rightarrow> TextractLine list" where
  "sort_lines ls = insertion_loop [] ls"

section \<open>The classifier and the assembly (\<open>parseTextractToReceipt\<close>)\<close>

text \<open>An item is the map with the keys \<open>name\<close>, \<open>qty\<close> and \<open>price\<close>.\<close>

record item =
  name :: string
  qty :: int
  price :: float64

text \<open>The values the receipt map holds.\<close>

datatype any = Str string | Num float64 | Items "item list" | Strs "string list"

type_synonym receipt = "string \<rightharpoonup> any"

text \<open>The local variables of \<open>parseTextractToReceipt\<close> that the loop updates.\<close>

record locals =
  items :: "item list"
  vendor :: string
  date :: string
  subtotal :: float64
  tax :: float64
  total :: float64

definition init_locals :: locals where
  "init_locals =
     \<lparr>items = [], vendor = [], date = [], subtotal = Finite 0, tax = Finite 0, total = Finite 0\<rparr>"

text \<open>The three steps of the loop body, in the order of the source.\<close>

definition vendor_step :: "nat \<Rightarrow> TextractLine \<Rightarrow> locals \<Rightarrow> locals" where
  "vendor_step i line v =
     (if i < 3 \<and> 90 < Confidence line \<and> vendor v = [] \<and> 3 < length (Text line)
      then v\<lparr>vendor := Text line\<rparr> else v)"

definition date_step :: "TextractLine \<Rightarrow> locals \<Rightarrow> locals" where
  "date_step line v =
     (if containsDate (Text line) \<and> date v = [] then v\<lparr>date := Text line\<rparr> else v)"

definition amount_step :: "TextractLine \<Rightarrow> locals \<Rightarrow> locals" where
  "amount_step line v =
     (if containsPrice (Text line) then
        (let lowerText = ToLower (Text line);
             price = extractPrice (Text line)
         in if Contains lowerText ''subtotal'' then v\<lparr>subtotal := price\<rparr>
            else if Contains lowerText ''tax'' then v\<lparr>tax := price\<rparr>
            else if Contains lowerText ''total'' \<and> \<not> Contains lowerText ''subtotal''
              then v\<lparr>total := price\<rparr>
            else if f64_less (Finite 0) price then
              (let name = extractItemName (Text line)
               in if name \<noteq> [] \<and> 1 < length name
                  then v\<lparr>items := items v @ [\<lparr>name = name, qty = 1, price = price\<rparr>]\<rparr>
                  else v)
            else v)
      else v)"

definition body :: "nat \<Rightarrow> TextractLine \<Rightarrow> locals \<Rightarrow> locals" where
  "body i line v = amount_step line (date_step line (vendor_step i line v))"

text \<open>The loop over the lines, from index \<open>i\<close> on.\<close>

fun loop :: "nat \<Rightarrow> TextractLine list \<Rightarrow> locals \<Rightarrow> locals" where
  "loop i [] v = v"
| "loop i (line # lines) v = loop (Suc i) lines (body i line v)"

text \<open>The receipt map as it is first built, and as it is returned.\<close>

definition new_receipt :: receipt where
  "new_receipt =
     [''vendor'' \<mapsto> Str [], ''date'' \<mapsto> Str [], ''items'' \<mapsto> Items [],
      ''subtotal'' \<mapsto> Num (Finite 0), ''tax'' \<mapsto> Num (Finite 0), ''total'' \<mapsto> Num (Finite 0),
      ''confidence_notes'' \<mapsto> Str ''Parsed from Textract OCR output'',
      ''anomalies'' \<mapsto> Strs []]"

definition parseTextractToReceipt :: "TextractLine list \<Rightarrow> receipt" where
  "parseTextractToReceipt lines =
     (let v = loop 0 lines init_locals
      in new_receipt
           (''vendor'' \<mapsto> Str (vendor v), ''date'' \<mapsto> Str (date v), ''items'' \<mapsto> Items (items v),
            ''subtotal'' \<mapsto> Num (subtotal v), ''tax'' \<mapsto> Num (tax v), ''total'' \<mapsto> Num (total v)))"

text \<open>
  The pipeline of \<open>handleAnalyze\<close> on the lines of a document: \<open>HandleLoadTextract\<close> sorts
  them, \<open>parseTextractToReceipt\<close> classifies them and builds the receipt.
\<close>

definition analyze :: "TextractLine list \<Rightarrow> receipt" where
  "analyze lines = parseTextractToReceipt (sort_lines lines)"

section \<open>Notions used to state the properties\<close>

text \<open>The five fragments of the end-to-end scenario.\<close>

definition scenario :: "TextractLine list" where
  "scenario =
    [\<lparr>Text = ''STORE NAME'', Confidence = 97, Top = 0.05, Left = 0.1\<rparr>,
     \<lparr>Text = ''Milk $4.99'', Confidence = 95, Top = 0.30, Left = 0.1\<rparr>,
     \<lparr>Text = ''Subtotal $4.99'', Confidence = 96, Top = 0.50, Left = 0.1\<rparr>,
     \<lparr>Text = ''Tax $0.40'', Confidence = 96, Top = 0.55, Left = 0.1\<rparr>,
     \<lparr>Text = ''Total $5.39'', Confidence = 97, Top = 0.60, Left = 0.1\<rparr>]"


text \<open>The fields of the receipt a fragment can be assigned to.\<close>

datatype field = Vendor | Date | Subtotal | Tax | Total | Item

text \<open>
  The amount field the third step of the loop body writes for a line, if any: the
  conditions of its branches, in their order.
\<close>

definition amount_field :: "TextractLine \<Rightarrow> field option" where
  "amount_field line =
     (if containsPrice (Text line) then
        (let lowerText = ToLower (Text line);
             price = extractPrice (Text line)
         in if Contains lowerText ''subtotal'' then Some Subtotal
            else if Contains lowerText ''tax'' then Some Tax
            else if Contains lowerText ''total'' \<and> \<not> Contains lowerText ''subtotal''
              then Some Total
            else if f64_less (Finite 0) price then
              (let name = extractItemName (Text line)
               in if name \<noteq> [] \<and> 1 < length name then Some Item else None)
            else None)
      else None)"

text \<open>
  The fields the loop body writes for the line at index \<open>i\<close>, given the variables as
  they are before it.
\<close>

definition assigned :: "nat \<Rightarrow> TextractLine \<Rightarrow> locals \<Rightarrow> field list" where
  "assigned i line v =
     (if i < 3 \<and> 90 < Confidence line \<and> vendor v = [] \<and> 3 < length (Text line)
      then [Vendor] else []) @
     (if containsDate (Text line) \<and> date v = [] then [Date] else []) @
     (case amount_field line of None \<Rightarrow> [] | Some f \<Rightarrow> [f])"

text \<open>
  Writing a set of fields from a line: a field of the set receives what the loop body
  assigns to it, every other variable is kept.
\<close>

definition write_fields :: "field list \<Rightarrow> TextractLine \<Rightarrow> locals \<Rightarrow> locals" where
  "write_fields fs line v =
     \<lparr>items = (if Item \<in> set fs
               then items v @ [\<lparr>name = extractItemName (Text line), qty = 1,
                                price = extractPrice (Text line)\<rparr>]
               else items v),
      vendor = (if Vendor \<in> set fs then Text line else vendor v),
      date = (if Date \<in> set fs then Text line else date v),
      subtotal = (if Subtotal \<in> set fs then extractPrice (Text line) else subtotal v),
      tax = (if Tax \<in> set fs then extractPrice (Text line) else tax v),
      total = (if Total \<in> set fs then extractPrice (Text line) else total v)\<rparr>"

text \<open>A fragment that passes the confidence and the length test of the vendor rule.\<close>

definition vendor_candidate :: "TextractLine \<Rightarrow> bool" where
  "vendor_candidate line = (90 < Confidence line \<and> 3 < length (Text line))"

text \<open>The fragments the loop body assigns to the tax, and to the total.\<close>

definition tax_line :: "TextractLine \<Rightarrow> bool" where
  "tax_line line =
     (containsPrice (Text line) \<and> \<not> Contains (ToLower (Text line)) ''subtotal'' \<and>
      Contains (ToLower (Text line)) ''tax'')"

definition total_line :: "TextractLine \<Rightarrow> bool" where
  "total_line line =
     (containsPrice (Text line) \<and> \<not> Contains (ToLower (Text line)) ''subtotal'' \<and>
      \<not> Contains (ToLower (Text line)) ''tax'' \<and> Contains (ToLower (Text line)) ''total'')"

text \<open>
  The fragments the specification names for the total: a price-bearing fragment whose
  lower-cased text contains \<open>total\<close> and not \<open>subtotal\<close>.
\<close>

definition spec_total_line :: "TextractLine \<Rightarrow> bool" where
  "spec_total_line line =
     (containsPrice (Text line) \<and> Contains (ToLower (Text line)) ''total'' \<and>
      \<not> Contains (ToLower (Text line)) ''subtotal'')"

text \<open>The amount extracted from the last of some fragments; \<open>d\<close> if there are none.\<close>

definition last_amount :: "TextractLine list \<Rightarrow> float64 \<Rightarrow> float64" where
  "last_amount ls d = (case ls of [] \<Rightarrow> d | _ \<Rightarrow> extractPrice (Text (last ls)))"

text \<open>The keys of the receipt schema.\<close>

definition receipt_keys :: "string set" where
  "receipt_keys = {''vendor'', ''date'', ''items'', ''subtotal'', ''tax'', ''total'',
     ''confidence_notes'', ''anomalies''}"

text \<open>The string \<open>NormalizePrice\<close> hands to the parser.\<close>

definition cleaned :: "string \<Rightarrow> string" where
  "cleaned s = remove_char (CHR '','') (TrimPrefix (TrimSpace s) ''$'')"

text \<open>Fragments on which the properties are tried.\<close>

definition mixed_line :: TextractLine where
  "mixed_line =
     \<lparr>Text = ''Total $5.39 03/15/2024'', Confidence = 99, Top = 0.1, Left = 0.1\<rparr>"

definition dated_line :: TextractLine where
  "dated_line = \<lparr>Text = ''Date: 03/15/2024'', Confidence = 99, Top = 0.1, Left = 0.1\<rparr>"

definition plain_line :: TextractLine where
  "plain_line = \<lparr>Text = ''Thank you'', Confidence = 50, Top = 0.9, Left = 0.1\<rparr>"

definition two_totals :: "TextractLine list" where
  "two_totals =
    [\<lparr>Text = ''Total $5.39'', Confidence = 97, Top = 0.60, Left = 0.1\<rparr>,
     \<lparr>Text = ''Total tax $0.40'', Confidence = 96, Top = 0.65, Left = 0.1\<rparr>]"

definition two_taxes :: "TextractLine list" where
  "two_taxes =
    [\<lparr>Text = ''Tax $0.40'', Confidence = 96, Top = 0.55, Left = 0.1\<rparr>,
     \<lparr>Text = ''Total $5.39'', Confidence = 97, Top = 0.60, Left = 0.1\<rparr>,
     \<lparr>Text = ''Tax $4.99'', Confidence = 96, Top = 0.65, Left = 0.1\<rparr>]"

definition late_vendor :: "TextractLine list" where
  "late_vendor =
    [\<lparr>Text = ''#'', Confidence = 99, Top = 0.01, Left = 0.1\<rparr>,
     \<lparr>Text = ''STORE NAME'', Confidence = 80, Top = 0.05, Left = 0.1\<rparr>,
     \<lparr>Text = ''Main St'', Confidence = 90, Top = 0.10, Left = 0.1\<rparr>,
     \<lparr>Text = ''Receipt'', Confidence = 85, Top = 0.15, Left = 0.1\<rparr>,
     \<lparr>Text = ''BIG STORE'', Confidence = 99, Top = 0.20, Left = 0.1\<rparr>]"

section \<open>Concrete amounts\<close>

lemma ParseFloat_4_99: "ParseFloat ''4.99'' = Some (Finite (499 / 100))"
proof -
  have "special ''4.99'' = None" by code_simp
  moreover have "readFloat ''4.99'' = Some (False, False, 499, 2, 0)" by code_simp
  ultimately show ?thesis by (simp add: ParseFloat_def pow_int_def)
qed

lemma ParseFloat_0_40: "ParseFloat ''0.40'' = Some (Finite (2 / 5))"
proof -
  have "special ''0.40'' = None" by code_simp
  moreover have "readFloat ''0.40'' = Some (False, False, 40, 2, 0)" by code_simp
  ultimately show ?thesis by (simp add: ParseFloat_def pow_int_def)
qed

lemma ParseFloat_5_39: "ParseFloat ''5.39'' = Some (Finite (539 / 100))"
proof -
  have "special ''5.39'' = None" by code_simp
  moreover have "readFloat ''5.39'' = Some (False, False, 539, 2, 0)" by code_simp
  ultimately show ?thesis by (simp add: ParseFloat_def pow_int_def)
qed

lemma extractPrice_milk: "extractPrice ''Milk $4.99'' = Finite (499 / 100)"
proof -
  have "find_match priceRegex ''Milk $4.99'' =
          Some (''Milk '', [''$'', ''4'', ''.'', ''99''], [])"
    by code_simp
  then show ?thesis by (simp add: extractPrice_def remove_char_def ParseFloat_4_99)
qed

lemma extractPrice_subtotal: "extractPrice ''Subtotal $4.99'' = Finite (499 / 100)"
proof -
  have "find_match priceRegex ''Subtotal $4.99'' =
          Some (''Subtotal '', [''$'', ''4'', ''.'', ''99''], [])"
    by code_simp
  then show ?thesis by (simp add: extractPrice_def remove_char_def ParseFloat_4_99)
qed

lemma extractPrice_tax: "extractPrice ''Tax $0.40'' = Finite (2 / 5)"
proof -
  have "find_match priceRegex ''Tax $0.40'' =
          Some (''Tax '', [''$'', ''0'', ''.'', ''40''], [])"
    by code_simp
  then show ?thesis by (simp add: extractPrice_def remove_char_def ParseFloat_0_40)
qed

lemma extractPrice_tax_late: "extractPrice ''Tax $4.99'' = Finite (499 / 100)"
proof -
  have "find_match priceRegex ''Tax $4.99'' =
          Some (''Tax '', [''$'', ''4'', ''.'', ''99''], [])"
    by code_simp
  then show ?thesis by (simp add: extractPrice_def remove_char_def ParseFloat_4_99)
qed

lemma extractPrice_total: "extractPrice ''Total $5.39'' = Finite (539 / 100)"
proof -
  have "find_match priceRegex ''Total $5.39'' =
          Some (''Total '', [''$'', ''5'', ''.'', ''39''], [])"
    by code_simp
  then show ?thesis by (simp add: extractPrice_def remove_char_def ParseFloat_5_39)
qed

lemma extractPrice_total_tax: "extractPrice ''Total tax $0.40'' = Finite (2 / 5)"
proof -
  have "find_match priceRegex ''Total tax $0.40'' =
          Some (''Total tax '', [''$'', ''0'', ''.'', ''40''], [])"
    by code_simp
  then show ?thesis by (simp add: extractPrice_def remove_char_def ParseFloat_0_40)
qed

lemma extractPrice_mixed: "extractPrice ''Total $5.39 03/15/2024'' = Finite (539 / 100)"
proof -
  have "find_match priceRegex ''Total $5.39 03/15/2024'' =
          Some (''Total '', [''$'', ''5'', ''.'', ''39''], '' 03/15/2024'')"
    by code_simp
  then show ?thesis by (simp add: extractPrice_def remove_char_def ParseFloat_5_39)
qed

section \<open>The end-to-end scenario\<close>

lemma sort_scenario: "sort_lines scenario = scenario"
  by (simp add: sort_lines_def scenario_def line_less_def)

lemma scenario_tests:
  "\<not> containsPrice ''STORE NAME''" "\<not> containsDate ''STORE NAME''"
  "containsPrice ''Milk $4.99''" "\<not> containsDate ''Milk $4.99''"
  "containsPrice ''Subtotal $4.99''" "\<not> containsDate ''Subtotal $4.99''"
  "containsPrice ''Tax $0.40''" "\<not> containsDate ''Tax $0.40''"
  "containsPrice ''Total $5.39''" "\<not> containsDate ''Total $5.39''"
  by code_simp+

lemma scenario_words:
  "\<not> Contains (ToLower ''Milk $4.99'') ''subtotal''"
  "\<not> Contains (ToLower ''Milk $4.99'') ''tax''"
  "\<not> Contains (ToLower ''Milk $4.99'') ''total''"
  "Contains (ToLower ''Subtotal $4.99'') ''subtotal''"
  "\<not> Contains (ToLower ''Tax $0.40'') ''subtotal''"
  "Contains (ToLower ''Tax $0.40'') ''tax''"
  "\<not> Contains (ToLower ''Total $5.39'') ''subtotal''"
  "\<not> Contains (ToLower ''Total $5.39'') ''tax''"
  "Contains (ToLower ''Total $5.39'') ''total''"
  "extractItemName ''Milk $4.99'' = ''Milk''"
  by code_simp+

lemma loop_scenario:
  "loop 0 scenario init_locals =
     \<lparr>items = [\<lparr>name = ''Milk'', qty = 1, price = Finite (499 / 100)\<rparr>],
      vendor = ''STORE NAME'', date = [], subtotal = Finite (499 / 100),
      tax = Finite (2 / 5), total = Finite (539 / 100)\<rparr>"
  by (simp add: scenario_def init_locals_def body_def vendor_step_def date_step_def
      amount_step_def Let_def scenario_tests scenario_words extractPrice_milk
      extractPrice_subtotal extractPrice_tax extractPrice_total)

text \<open>
  Claim C1. On the five fragments of the scenario the pipeline (ordering, then
  classification, then assembly) returns a receipt whose vendor is \<open>STORE NAME\<close>, whose
  items are the one item with name \<open>Milk\<close>, quantity 1 and price 4.99, whose subtotal is
  4.99, whose tax is 0.40 and whose total is 5.39.
\<close>

theorem end_to_end_scenario:
  "analyze scenario ''vendor'' = Some (Str ''STORE NAME'') \<and>
   analyze scenario ''items'' =
     Some (Items [\<lparr>name = ''Milk'', qty = 1, price = Finite 4.99\<rparr>]) \<and>
   analyze scenario ''subtotal'' = Some (Num (Finite 4.99)) \<and>
   analyze scenario ''tax'' = Some (Num (Finite 0.40)) \<and>
   analyze scenario ''total'' = Some (Num (Finite 5.39))"
  by (simp add: analyze_def sort_scenario parseTextractToReceipt_def loop_scenario)

section \<open>The default quantity\<close>

text \<open>
  Claim C9. \<open>ParseQuantity\<close> returns the default quantity 1 for every token whose
  trimmed form is not read as an integer or is read as an integer below 1; it returns 1
  for the empty token, for \<open>abc\<close>, for \<open>0\<close> and for \<open>-3\<close>, and 4 for \<open>4\<close>.
\<close>

theorem ParseQuantity_default:
  "(Atoi (TrimSpace s) = None \<or> (\<exists>q. Atoi (TrimSpace s) = Some q \<and> q < 1)
      \<longrightarrow> ParseQuantity s = 1) \<and>
   ParseQuantity '''' = 1 \<and> ParseQuantity ''abc'' = 1 \<and> ParseQuantity ''0'' = 1 \<and>
   ParseQuantity ''-3'' = 1 \<and> ParseQuantity ''4'' = 4"
proof -
  have "Atoi (TrimSpace s) = None \<or> (\<exists>q. Atoi (TrimSpace s) = Some q \<and> q < 1)
          \<longrightarrow> ParseQuantity s = 1"
    by (auto simp: ParseQuantity_def)
  moreover have "ParseQuantity '''' = 1" by code_simp
  moreover have "ParseQuantity ''abc'' = 1" by code_simp
  moreover have "ParseQuantity ''0'' = 1" by code_simp
  moreover have "ParseQuantity ''-3'' = 1" by code_simp
  moreover have "ParseQuantity ''4'' = 4" by code_simp
  ultimately show ?thesis by blast
qed

theorem ParseQuantity_default_witness:
  "Atoi (TrimSpace '' x7 '') = None \<and> ParseQuantity '' x7 '' = 1 \<and>
   Atoi (TrimSpace '' -12 '') = Some (- 12) \<and> ParseQuantity '' -12 '' = 1"
proof -
  have h: "Atoi (TrimSpace '' x7 '') = None" by code_simp
  have g: "Atoi (TrimSpace '' -12 '') = Some (- 12)" by code_simp
  from h g ParseQuantity_default [of "'' x7 ''"] ParseQuantity_default [of "'' -12 ''"]
  show ?thesis by simp
qed

section \<open>What each step of the loop body changes\<close>

lemma amount_step_vendor [simp]: "vendor (amount_step line v) = vendor v"
  by (simp add: amount_step_def Let_def)

lemma amount_step_date [simp]: "date (amount_step line v) = date v"
  by (simp add: amount_step_def Let_def)

lemma date_step_vendor [simp]: "vendor (date_step line v) = vendor v"
  by (simp add: date_step_def)

lemma vendor_step_date [simp]: "date (vendor_step i line v) = date v"
  by (simp add: vendor_step_def)

lemma vendor_body:
  "vendor (body i line v) =
     (if i < 3 \<and> vendor_candidate line \<and> vendor v = [] then Text line else vendor v)"
  by (auto simp: body_def vendor_step_def vendor_candidate_def)

lemma date_body:
  "date (body i line v) =
     (if containsDate (Text line) \<and> date v = [] then Text line else date v)"
  by (auto simp: body_def date_step_def)

lemma tax_body:
  "tax (body i line v) = (if tax_line line then extractPrice (Text line) else tax v)"
  by (simp add: body_def amount_step_def Let_def tax_line_def date_step_def vendor_step_def)

lemma total_body:
  "total (body i line v) = (if total_line line then extractPrice (Text line) else total v)"
  by (simp add: body_def amount_step_def Let_def total_line_def date_step_def vendor_step_def)

section \<open>The vendor\<close>

text \<open>
  Once the vendor is set it is not empty (its text is longer than 3 bytes), so no later
  fragment replaces it; the index test closes the rule after the third fragment.
\<close>

lemma vendor_loop:
  "vendor (loop i ls v) =
     (if vendor v \<noteq> [] then vendor v
      else case find vendor_candidate (take (3 - i) ls) of None \<Rightarrow> [] | Some l \<Rightarrow> Text l)"
proof (induction ls arbitrary: i v)
  case Nil
  then show ?case by simp
next
  case (Cons l ls)
  show ?case
  proof (cases "vendor v = []")
    case False
    then show ?thesis by (simp add: Cons.IH vendor_body)
  next
    case True
    show ?thesis
    proof (cases "i < 3")
      case False
      with True show ?thesis by (simp add: Cons.IH vendor_body)
    next
      case lt: True
      then have t: "take (3 - i) (l # ls) = l # take (3 - Suc i) ls"
        by (simp add: take_Cons')
      show ?thesis
      proof (cases "vendor_candidate l")
        case True
        then have "Text l \<noteq> []" by (auto simp: vendor_candidate_def)
        with True \<open>vendor v = []\<close> lt t show ?thesis by (simp add: Cons.IH vendor_body)
      next
        case False
        with \<open>vendor v = []\<close> lt t show ?thesis by (simp add: Cons.IH vendor_body)
      qed
    qed
  qed
qed

text \<open>
  Claim C8. The vendor of the receipt is the text of the first fragment, among the first
  three of the ordered sequence, whose confidence exceeds 90 and whose text is longer
  than 3 bytes, and it is empty if there is none. The vendor is the same when every
  fragment from the fourth on is left out: such a fragment is never selected, whatever its
  confidence.
\<close>

theorem vendor_first_of_three:
  "parseTextractToReceipt lines ''vendor'' =
     Some (Str (case find vendor_candidate (take 3 lines) of
                  None \<Rightarrow> []
                | Some l \<Rightarrow> Text l)) \<and>
   parseTextractToReceipt lines ''vendor'' = parseTextractToReceipt (take 3 lines) ''vendor''"
  by (simp add: parseTextractToReceipt_def Let_def vendor_loop init_locals_def)

text \<open>
  In \<open>late_vendor\<close> none of the first three fragments passes both tests (too short, or
  a confidence of at most 90), and the fifth, read with confidence 99, is not taken.
\<close>

theorem vendor_first_of_three_witness:
  "parseTextractToReceipt late_vendor ''vendor'' = Some (Str []) \<and>
   parseTextractToReceipt scenario ''vendor'' = Some (Str ''STORE NAME'')"
  using vendor_first_of_three [of late_vendor] vendor_first_of_three [of scenario]
  by (simp add: late_vendor_def scenario_def vendor_candidate_def)

section \<open>The date\<close>

lemma containsDate_nonempty: "containsDate t \<Longrightarrow> t \<noteq> []"
proof
  assume "containsDate t" "t = []"
  moreover have "\<not> containsDate []" by code_simp
  ultimately show False by simp
qed

lemma date_loop:
  "date (loop i ls v) =
     (if date v \<noteq> [] then date v
      else case find (\<lambda>l. containsDate (Text l)) ls of None \<Rightarrow> [] | Some l \<Rightarrow> Text l)"
proof (induction ls arbitrary: i v)
  case Nil
  then show ?case by simp
next
  case (Cons l ls)
  show ?case
    using containsDate_nonempty [of "Text l"]
    by (simp add: Cons.IH date_body)
qed

lemma dated_line_facts:
  "containsDate ''Date: 03/15/2024''"
  "FindString dateRegex ''Date: 03/15/2024'' = ''03/15/2024''"
  "ExtractDate ''Date: 03/15/2024'' = ''03/15/2024''"
  by code_simp+

text \<open>
  Claim C3, as stated, fails. For the single fragment \<open>Date: 03/15/2024\<close> the date of the
  receipt is the whole text of the fragment, while the substring that the date pattern
  matches (and that \<open>ExtractDate\<close> returns) is \<open>03/15/2024\<close>.
\<close>

theorem date_not_matched_substring:
  "parseTextractToReceipt [dated_line] ''date'' = Some (Str ''Date: 03/15/2024'') \<and>
   FindString dateRegex (Text dated_line) = ''03/15/2024'' \<and>
   ExtractDate (Text dated_line) = ''03/15/2024'' \<and>
   parseTextractToReceipt [dated_line] ''date'' \<noteq> Some (Str (FindString dateRegex (Text dated_line)))"
  by (simp add: parseTextractToReceipt_def Let_def date_body init_locals_def dated_line_def
      dated_line_facts)

text \<open>
  Claim C3, amended. The date of the receipt is the whole text of the first fragment of
  the ordered sequence in which \<open>dateRegex\<close> matches somewhere, and it is empty if there is
  no such fragment.
\<close>

theorem date_whole_text_of_first_match:
  "parseTextractToReceipt lines ''date'' =
     Some (Str (case find (\<lambda>l. containsDate (Text l)) lines of
                  None \<Rightarrow> []
                | Some l \<Rightarrow> Text l))"
  by (simp add: parseTextractToReceipt_def Let_def date_loop init_locals_def)

section \<open>Tax and total\<close>

lemma last_amount_Cons:
  "last_amount (filter P (l # ls)) d =
     last_amount (filter P ls) (if P l then extractPrice (Text l) else d)"
  by (simp add: last_amount_def split: list.splits)

lemma tax_loop: "tax (loop i ls v) = last_amount (filter tax_line ls) (tax v)"
proof (induction ls arbitrary: i v)
  case Nil
  then show ?case by (simp add: last_amount_def)
next
  case (Cons l ls)
  show ?case
    unfolding last_amount_Cons by (simp add: Cons.IH tax_body)
qed

lemma total_loop: "total (loop i ls v) = last_amount (filter total_line ls) (total v)"
proof (induction ls arbitrary: i v)
  case Nil
  then show ?case by (simp add: last_amount_def)
next
  case (Cons l ls)
  show ?case
    unfolding last_amount_Cons by (simp add: Cons.IH total_body)
qed

lemma two_totals_facts:
  "containsPrice ''Total tax $0.40''"
  "\<not> Contains (ToLower ''Total tax $0.40'') ''subtotal''"
  "Contains (ToLower ''Total tax $0.40'') ''tax''"
  "Contains (ToLower ''Total tax $0.40'') ''total''"
  "containsPrice ''Tax $4.99''"
  "\<not> Contains (ToLower ''Tax $4.99'') ''subtotal''"
  "Contains (ToLower ''Tax $4.99'') ''tax''"
  by code_simp+

text \<open>
  Claim C10, as stated, fails for the total. Of the two fragments \<open>Total $5.39\<close> and
  \<open>Total tax $0.40\<close>, both price-bearing with \<open>total\<close> and without \<open>subtotal\<close> in their
  lower-cased text, the last one holds the amount 0.40, but it also contains \<open>tax\<close> and is
  assigned to the tax: the total of the receipt is 5.39.
\<close>

theorem total_not_last_total_fragment:
  "filter spec_total_line two_totals = two_totals \<and>
   extractPrice (Text (last (filter spec_total_line two_totals))) = Finite 0.40 \<and>
   parseTextractToReceipt two_totals ''total'' = Some (Num (Finite 5.39)) \<and>
   parseTextractToReceipt two_totals ''tax'' = Some (Num (Finite 0.40))"
  by (simp add: parseTextractToReceipt_def Let_def total_body tax_body init_locals_def
      two_totals_def spec_total_line_def total_line_def tax_line_def
      scenario_tests scenario_words two_totals_facts extractPrice_total extractPrice_total_tax)

text \<open>
  Claim C10, amended. The tax of the receipt is the amount extracted from the last
  price-bearing fragment whose lower-cased text contains \<open>tax\<close> and not \<open>subtotal\<close>, and
  the total is the amount extracted from the last price-bearing fragment whose lower-cased
  text contains \<open>total\<close> and neither \<open>subtotal\<close> nor \<open>tax\<close>: a later match overwrites an
  earlier one. Either is 0 if there is no such fragment.
\<close>

theorem last_tax_and_total_win:
  "parseTextractToReceipt lines ''tax'' =
     Some (Num (last_amount (filter tax_line lines) (Finite 0))) \<and>
   parseTextractToReceipt lines ''total'' =
     Some (Num (last_amount (filter total_line lines) (Finite 0)))"
  by (simp add: parseTextractToReceipt_def Let_def tax_loop total_loop init_locals_def)

theorem last_tax_and_total_win_witness:
  "filter tax_line two_taxes = [two_taxes ! 0, two_taxes ! 2] \<and>
   parseTextractToReceipt two_taxes ''tax'' = Some (Num (Finite 4.99)) \<and>
   parseTextractToReceipt two_taxes ''total'' = Some (Num (Finite 5.39))"
proof -
  have "filter tax_line two_taxes = [two_taxes ! 0, two_taxes ! 2]"
    by (simp add: two_taxes_def tax_line_def scenario_tests scenario_words two_totals_facts)
  moreover have "filter total_line two_taxes = [two_taxes ! 1]"
    by (simp add: two_taxes_def total_line_def scenario_tests scenario_words two_totals_facts)
  ultimately show ?thesis
    using last_tax_and_total_win [of two_taxes]
    by (simp add: last_amount_def two_taxes_def extractPrice_tax_late extractPrice_total)
qed

section \<open>The fields one fragment is assigned to\<close>

lemma body_assigned: "body i line v = write_fields (assigned i line v) line v"
  by (simp add: body_def vendor_step_def date_step_def amount_step_def assigned_def
      amount_field_def write_fields_def Let_def)

lemma write_fields_Nil: "write_fields [] line v = v"
  by (simp add: write_fields_def)

lemma mixed_line_facts:
  "containsDate ''Total $5.39 03/15/2024''"
  "containsPrice ''Total $5.39 03/15/2024''"
  "\<not> Contains (ToLower ''Total $5.39 03/15/2024'') ''subtotal''"
  "\<not> Contains (ToLower ''Total $5.39 03/15/2024'') ''tax''"
  "Contains (ToLower ''Total $5.39 03/15/2024'') ''total''"
  by code_simp+

text \<open>
  Claim C2, as stated, fails. The three steps of the loop body are three separate
  conditionals, not alternatives. The single fragment \<open>Total $5.39 03/15/2024\<close>, first in
  the sequence and read with confidence 99, is assigned to the vendor, to the date and to
  the total of the receipt.
\<close>

theorem one_fragment_three_fields:
  "assigned 0 mixed_line init_locals = [Vendor, Date, Total] \<and>
   parseTextractToReceipt [mixed_line] ''vendor'' = Some (Str ''Total $5.39 03/15/2024'') \<and>
   parseTextractToReceipt [mixed_line] ''date'' = Some (Str ''Total $5.39 03/15/2024'') \<and>
   parseTextractToReceipt [mixed_line] ''total'' = Some (Num (Finite 5.39))"
  by (simp add: parseTextractToReceipt_def Let_def body_assigned write_fields_def assigned_def
      amount_field_def mixed_line_def init_locals_def mixed_line_facts extractPrice_mixed)

text \<open>
  Claim C2, amended. The loop body writes exactly the fields \<open>assigned\<close> lists: the vendor
  rule, then the date rule, then the amount classification, each decided on its own, so
  that one fragment can be assigned to the vendor, to the date and to an amount field.
  The rules of the amount classification exclude one another: a fragment is assigned to at
  most one of subtotal, tax, total and the items, and to no field twice.
\<close>

theorem amount_rules_exclusive:
  "body i line v = write_fields (assigned i line v) line v \<and>
   length (filter (\<lambda>f. f \<in> {Subtotal, Tax, Total, Item}) (assigned i line v)) \<le> 1 \<and>
   distinct (assigned i line v)"
proof -
  have "length (filter (\<lambda>f. f \<in> {Subtotal, Tax, Total, Item}) (assigned i line v)) \<le> 1"
    by (simp add: assigned_def split: option.splits)
  moreover have "distinct (assigned i line v)"
    by (auto simp: assigned_def amount_field_def Let_def split: option.splits if_splits)
  ultimately show ?thesis by (simp add: body_assigned)
qed

section \<open>The shape of the receipt\<close>

lemma dom_receipt: "dom (parseTextractToReceipt lines) = receipt_keys"
  by (auto simp: parseTextractToReceipt_def new_receipt_def receipt_keys_def Let_def)

lemma loop_unclassified:
  "list_all (\<lambda>(j, l). assigned j l v = []) (enumerate i ls) \<Longrightarrow> loop i ls v = v"
proof (induction ls arbitrary: i)
  case Nil
  then show ?case by simp
next
  case (Cons l ls)
  from Cons.prems have "assigned i l v = []" by simp
  then have "body i l v = v" by (simp add: body_assigned write_fields_Nil)
  moreover from Cons.prems
  have "list_all (\<lambda>(j, l). assigned j l v = []) (enumerate (Suc i) ls)" by simp
  ultimately show ?case using Cons.IH by simp
qed

lemma receipt_of_init:
  "loop 0 lines init_locals = init_locals \<Longrightarrow> parseTextractToReceipt lines = new_receipt"
  by (rule ext) (simp add: parseTextractToReceipt_def Let_def new_receipt_def init_locals_def)

text \<open>
  Claim C5. For every list of fragments \<open>parseTextractToReceipt\<close> returns a receipt (every
  function of the model is total: the loop runs once over the finite list, and no branch
  of the source returns an error or can fail). The keys of the receipt are exactly the
  eight keys of the schema; vendor and date hold strings, the items a list of items,
  subtotal, tax and total numbers, the confidence notes the fixed string and the anomalies
  an empty list. When no fragment is assigned to any field, the receipt is the initial
  one: empty vendor, date and items, and 0 for subtotal, tax and total.
\<close>

theorem receipt_fully_formed:
  "dom (parseTextractToReceipt lines) = receipt_keys \<and>
   (\<exists>s. parseTextractToReceipt lines ''vendor'' = Some (Str s)) \<and>
   (\<exists>s. parseTextractToReceipt lines ''date'' = Some (Str s)) \<and>
   (\<exists>xs. parseTextractToReceipt lines ''items'' = Some (Items xs)) \<and>
   (\<exists>x. parseTextractToReceipt lines ''subtotal'' = Some (Num x)) \<and>
   (\<exists>x. parseTextractToReceipt lines ''tax'' = Some (Num x)) \<and>
   (\<exists>x. parseTextractToReceipt lines ''total'' = Some (Num x)) \<and>
   parseTextractToReceipt lines ''confidence_notes'' =
     Some (Str ''Parsed from Textract OCR output'') \<and>
   parseTextractToReceipt lines ''anomalies'' = Some (Strs []) \<and>
   (list_all (\<lambda>(j, l). assigned j l init_locals = []) (enumerate 0 lines) \<longrightarrow>
      parseTextractToReceipt lines =
        [''vendor'' \<mapsto> Str [], ''date'' \<mapsto> Str [], ''items'' \<mapsto> Items [],
         ''subtotal'' \<mapsto> Num (Finite 0), ''tax'' \<mapsto> Num (Finite 0),
         ''total'' \<mapsto> Num (Finite 0),
         ''confidence_notes'' \<mapsto> Str ''Parsed from Textract OCR output'',
         ''anomalies'' \<mapsto> Strs []])"
proof -
  have "parseTextractToReceipt lines = new_receipt"
    if "list_all (\<lambda>(j, l). assigned j l init_locals = []) (enumerate 0 lines)"
    using that by (simp add: loop_unclassified receipt_of_init)
  then show ?thesis
    by (simp add: dom_receipt) (simp add: parseTextractToReceipt_def Let_def new_receipt_def)
qed

lemma plain_line_facts:
  "\<not> containsDate ''Thank you''" "\<not> containsPrice ''Thank you''"
  by code_simp+

theorem receipt_fully_formed_witness:
  "assigned 0 plain_line init_locals = [] \<and>
   parseTextractToReceipt [plain_line] ''vendor'' = Some (Str []) \<and>
   parseTextractToReceipt [plain_line] ''total'' = Some (Num (Finite 0)) \<and>
   dom (parseTextractToReceipt [plain_line]) = receipt_keys"
proof -
  have a: "assigned 0 plain_line init_locals = []"
    by (simp add: assigned_def amount_field_def plain_line_def plain_line_facts)
  then have h: "list_all (\<lambda>(j, l). assigned j l init_locals = []) (enumerate 0 [plain_line])"
    by simp
  note r = receipt_fully_formed [of "[plain_line]"]
  from r have d: "dom (parseTextractToReceipt [plain_line]) = receipt_keys"
    by (rule conjunct1)
  from r h have e: "parseTextractToReceipt [plain_line] =
        [''vendor'' \<mapsto> Str [], ''date'' \<mapsto> Str [], ''items'' \<mapsto> Items [],
         ''subtotal'' \<mapsto> Num (Finite 0), ''tax'' \<mapsto> Num (Finite 0),
         ''total'' \<mapsto> Num (Finite 0),
         ''confidence_notes'' \<mapsto> Str ''Parsed from Textract OCR output'',
         ''anomalies'' \<mapsto> Strs []]"
    by blast
  have "parseTextractToReceipt [plain_line] ''vendor'' = Some (Str [])"
    by (simp add: e)
  moreover have "parseTextractToReceipt [plain_line] ''total'' = Some (Num (Finite 0))"
    by (simp add: e)
  ultimately show ?thesis using a d by blast
qed

section \<open>The ordering step\<close>











lemma sort_reversed_scenario: "sort_lines (rev scenario) = scenario"
  by (simp add: sort_lines_def scenario_def line_less_def)

section \<open>Price normalisation\<close>

lemma special_unsigned:
  "special s = Some v \<Longrightarrow> take 1 s \<noteq> ''-'' \<Longrightarrow> ToLower s \<noteq> ''nan'' \<Longrightarrow> v = PInf"
  by (auto simp: special_def split: list.splits if_splits)

lemma readFloat_neg: "readFloat s = Some (neg, hex, m, f, e) \<Longrightarrow> neg = (take 1 s = ''-'')"
  by (auto simp: readFloat_def Let_def split: list.splits prod.splits if_splits option.splits)

lemma pow_int_pos: "0 < b \<Longrightarrow> 0 < pow_int b n"
  by (simp add: pow_int_def)

text \<open>The parser returns a negative number or NaN only for a string that says so.\<close>

lemma ParseFloat_unsigned:
  assumes "ParseFloat s = Some v" "take 1 s \<noteq> ''-''" "ToLower s \<noteq> ''nan''"
  shows "f64_le (Finite 0) v"
proof (cases "special s")
  case (Some w)
  with assms have "v = PInf" by (auto simp: ParseFloat_def dest: special_unsigned)
  then show ?thesis by simp
next
  case None
  with assms(1) obtain neg hex m f e where r: "readFloat s = Some (neg, hex, m, f, e)"
    by (auto simp: ParseFloat_def split: option.splits)
  with assms(2) have n: "\<not> neg" by (auto dest: readFloat_neg)
  have "0 \<le> of_nat m * (if hex then pow_int 2 (e - 4 * int f) else pow_int 10 (e - int f))"
    using pow_int_pos [of 2] pow_int_pos [of 10] by (simp add: less_imp_le)
  with assms(1) None r n show ?thesis
    by (auto simp: ParseFloat_def Let_def split: if_splits)
qed

lemma ParseFloat_minus_5: "ParseFloat ''-5'' = Some (Finite (- 5))"
proof -
  have "special ''-5'' = None" by code_simp
  moreover have "readFloat ''-5'' = Some (True, False, 5, 0, 0)" by code_simp
  ultimately show ?thesis by (simp add: ParseFloat_def pow_int_def)
qed

lemma ParseFloat_3_50: "ParseFloat ''3.50'' = Some (Finite (7 / 2))"
proof -
  have "special ''3.50'' = None" by code_simp
  moreover have "readFloat ''3.50'' = Some (False, False, 350, 2, 0)" by code_simp
  ultimately show ?thesis by (simp add: ParseFloat_def pow_int_def)
qed

lemma ParseFloat_NaN: "ParseFloat ''NaN'' = Some NaN"
proof -
  have "special ''NaN'' = Some NaN" by code_simp
  then show ?thesis by (simp add: ParseFloat_def)
qed

lemma ParseFloat_hex: "ParseFloat ''0x1p-2'' = Some (Finite (1 / 4))"
proof -
  have "special ''0x1p-2'' = None" by code_simp
  moreover have "readFloat ''0x1p-2'' = Some (False, True, 1, 0, - 2)" by code_simp
  ultimately show ?thesis by (simp add: ParseFloat_def pow_int_def)
qed

lemma cleaned_examples:
  "cleaned ''-5'' = ''-5''" "cleaned ''  $3.50  '' = ''3.50''" "cleaned ''N/A'' = ''N/A''"
  "ParseFloat ''N/A'' = None" "cleaned ''NaN'' = ''NaN''" "cleaned ''0x1p-2'' = ''0x1p-2''"
  by code_simp+

text \<open>
  Claim C4, as stated, fails: \<open>NormalizePrice\<close> does not look at the sign. For the token
  \<open>-5\<close> it returns the negative amount -5. For the token \<open>NaN\<close> it returns NaN, which is
  not at least 0 either. And the parser is not restricted to base 10: the hexadecimal
  token \<open>0x1p-2\<close> gives 0.25.
\<close>

theorem NormalizePrice_negative:
  "NormalizePrice ''-5'' = Finite (- 5) \<and> \<not> f64_le (Finite 0) (NormalizePrice ''-5'') \<and>
   NormalizePrice ''NaN'' = NaN \<and> \<not> f64_le (Finite 0) (NormalizePrice ''NaN'') \<and>
   NormalizePrice ''0x1p-2'' = Finite 0.25"
proof -
  have "NormalizePrice ''-5'' = Finite (- 5)"
    using cleaned_examples(1)
    by (simp add: NormalizePrice_def cleaned_def Let_def ParseFloat_minus_5)
  moreover have "NormalizePrice ''NaN'' = NaN"
    using cleaned_examples(5)
    by (simp add: NormalizePrice_def cleaned_def Let_def ParseFloat_NaN)
  moreover have "NormalizePrice ''0x1p-2'' = Finite 0.25"
    using cleaned_examples(6)
    by (simp add: NormalizePrice_def cleaned_def Let_def ParseFloat_hex)
  ultimately show ?thesis by simp
qed

text \<open>
  Claim C4, amended. \<open>NormalizePrice\<close> trims white space, removes one leading dollar sign
  and all commas, and parses the rest with \<open>strconv.ParseFloat\<close>; it never returns an
  error: a token the parser refuses gives exactly 0.0, every other token the number
  parsed. The amount is non-negative for every token whose cleaned form neither begins
  with a minus sign nor spells NaN.
\<close>

theorem NormalizePrice_soft:
  "NormalizePrice s = (case ParseFloat (cleaned s) of None \<Rightarrow> Finite 0 | Some v \<Rightarrow> v) \<and>
   (take 1 (cleaned s) \<noteq> ''-'' \<and> ToLower (cleaned s) \<noteq> ''nan''
      \<longrightarrow> f64_le (Finite 0) (NormalizePrice s))"
proof -
  have eq: "NormalizePrice s = (case ParseFloat (cleaned s) of None \<Rightarrow> Finite 0 | Some v \<Rightarrow> v)"
    by (simp add: NormalizePrice_def cleaned_def Let_def)
  moreover have "f64_le (Finite 0) (NormalizePrice s)"
    if "take 1 (cleaned s) \<noteq> ''-''" "ToLower (cleaned s) \<noteq> ''nan''"
  proof (cases "ParseFloat (cleaned s)")
    case None
    with eq show ?thesis by simp
  next
    case (Some v)
    with that eq show ?thesis by (simp add: ParseFloat_unsigned)
  qed
  ultimately show ?thesis by blast
qed

theorem NormalizePrice_soft_witness:
  "take 1 (cleaned ''  $3.50  '') \<noteq> ''-'' \<and> ToLower (cleaned ''  $3.50  '') \<noteq> ''nan'' \<and>
   NormalizePrice ''  $3.50  '' = Finite 3.50 \<and>
   f64_le (Finite 0) (NormalizePrice ''  $3.50  '') \<and>
   NormalizePrice ''N/A'' = Finite 0"
proof -
  have h: "take 1 (cleaned ''  $3.50  '') \<noteq> ''-''" "ToLower (cleaned ''  $3.50  '') \<noteq> ''nan''"
    by (simp_all add: cleaned_examples ToLower_def)
  have "NormalizePrice ''  $3.50  '' = Finite 3.50"
    using NormalizePrice_soft [of "''  $3.50  ''"]
    by (simp add: cleaned_examples ParseFloat_3_50)
  moreover have "f64_le (Finite 0) (NormalizePrice ''  $3.50  '')"
    using NormalizePrice_soft [of "''  $3.50  ''"] h by blast
  moreover have "NormalizePrice ''N/A'' = Finite 0"
    using NormalizePrice_soft [of "''N/A''"] by (simp add: cleaned_examples)
  ultimately show ?thesis using h by blast
qed

end
